theory Spec2Isabelle
  imports Complex_Main "HOL-Library.Sublist"
begin

section \<open>Strings\<close>

text \<open>
  JavaScript strings are modelled as \<^typ>\<open>string\<close>. \<open>String.prototype.toLowerCase\<close>
  is the platform's (it follows the Unicode case mappings) and is a parameter
  \<open>toLowerCase\<close> of the functions that call it. \<open>asciiLowerCase\<close> is what it does on
  strings of ASCII characters, for concrete evaluations.
\<close>

definition lowerChar :: "char \<Rightarrow> char" where
  "lowerChar c =
     (case map_of (zip ''ABCDEFGHIJKLMNOPQRSTUVWXYZ'' ''abcdefghijklmnopqrstuvwxyz'') c of
        Some d \<Rightarrow> d
      | None \<Rightarrow> c)"

definition asciiLowerCase :: "string \<Rightarrow> string" where
  "asciiLowerCase s = map lowerChar s"

text \<open>
  \<open>h.includes(n)\<close>: the needle \<open>n\<close> occurs in \<open>h\<close> as a contiguous substring
  (\<open>includes\<close> itself is a reserved word of the theory language).
\<close>

fun includesStr :: "string \<Rightarrow> string \<Rightarrow> bool" where
  "includesStr [] n = (n = [])"
| "includesStr (c # cs) n = (prefix n (c # cs) \<or> includesStr cs n)"

text \<open>\<open>s.replace(/^https?:\/\//, "")\<close>\<close>

definition stripScheme :: "string \<Rightarrow> string" where
  "stripScheme s =
     (if prefix ''https://'' s then drop 8 s
      else if prefix ''http://'' s then drop 7 s
      else s)"

text \<open>\<open>s.replace(/^www\./, "")\<close>\<close>

definition stripWww :: "string \<Rightarrow> string" where
  "stripWww s = (if prefix ''www.'' s then drop 4 s else s)"

section \<open>The blocking service\<close>

text \<open>
  JavaScript numbers: counts of steps, minutes and milliseconds are \<^typ>\<open>int\<close>;
  coordinates, radii and distances are \<^typ>\<open>real\<close>. \<open>NaN\<close> and the infinities are
  not modelled.
\<close>

datatype TrackingMode = Steps | Location | Both

record LocationGoal =
  gymName :: string
  latitude :: real
  longitude :: real
  radiusMeters :: real
  requiredMinutes :: int

text \<open>
  \<open>BlockingSettings\<close>. The record is polymorphic in how the nested \<open>locationGoal\<close>
  object and the three arrays are held: by value (\<open>BlockingSettings\<close>), or by reference
  into a store (\<open>SettingsObj\<close>, in the section on \<open>getSettings\<close> and sharing).
\<close>

record ('g, 'l) Settings =
  enabled :: bool
  strictMode :: bool
  strictModeActivatedAt :: "int option"
  trackingMode :: TrackingMode
  dailyGoal :: int
  locationGoal :: 'g
  blockedApps :: 'l
  blockedWebsites :: 'l
  allowedDomains :: 'l
  blockingMessage :: string

type_synonym BlockingSettings = "(LocationGoal, string list) Settings"

text \<open>The fields of the class \<open>BlockingService\<close> (the listener set and the timer apart).\<close>

record BlockingService =
  settings :: BlockingSettings
  currentSteps :: int
  currentGymTime :: int
  isStepGoalAchieved :: bool
  isGymGoalAchieved :: bool

text \<open>\<open>locationGoal?.requiredMinutes || 60\<close>: the number 0 is falsy.\<close>

definition requiredMinutesOr60 :: "LocationGoal \<Rightarrow> int" where
  "requiredMinutesOr60 g = (if requiredMinutes g = 0 then 60 else requiredMinutes g)"

definition updateGoalStatus :: "BlockingService \<Rightarrow> BlockingService" where
  "updateGoalStatus st =
     st\<lparr>isStepGoalAchieved := (currentSteps st \<ge> dailyGoal (settings st)),
        isGymGoalAchieved :=
          (currentGymTime st \<ge> requiredMinutesOr60 (locationGoal (settings st)))\<rparr>"

definition updateStepCount :: "int \<Rightarrow> BlockingService \<Rightarrow> BlockingService" where
  "updateStepCount n st = updateGoalStatus (st\<lparr>currentSteps := n\<rparr>)"

definition updateGymTime :: "int \<Rightarrow> BlockingService \<Rightarrow> BlockingService" where
  "updateGymTime m st = updateGoalStatus (st\<lparr>currentGymTime := m\<rparr>)"

text \<open>The local \<open>goalsAchieved\<close> of \<open>shouldBlockWebsite\<close> and \<open>getBlockingStatus\<close>.\<close>

definition goalsAchieved :: "BlockingService \<Rightarrow> bool" where
  "goalsAchieved st =
     (case trackingMode (settings st) of
        Steps \<Rightarrow> isStepGoalAchieved st
      | Location \<Rightarrow> isGymGoalAchieved st
      | Both \<Rightarrow> isStepGoalAchieved st \<and> isGymGoalAchieved st)"

definition normalizedPattern :: "(string \<Rightarrow> string) \<Rightarrow> string \<Rightarrow> string" where
  "normalizedPattern toLowerCase pattern = stripWww (stripScheme (toLowerCase pattern))"

definition normalizedHostname :: "string \<Rightarrow> string" where
  "normalizedHostname hostname = stripWww hostname"

text \<open>
  \<open>shouldBlockWebsite\<close>. \<open>new URL(url).hostname\<close> is the platform's parser and is a
  parameter \<open>urlHostname\<close>: \<open>None\<close> when the constructor throws, the hostname
  otherwise. The \<open>catch\<close> branch is the \<open>None\<close> case. The method \<open>toLowerCase\<close>,
  applied to the hostname and to every pattern, is the second parameter.
\<close>

definition shouldBlockWebsite ::
  "(string \<Rightarrow> string option) \<Rightarrow> (string \<Rightarrow> string) \<Rightarrow> BlockingService \<Rightarrow> string \<Rightarrow> bool" where
  "shouldBlockWebsite urlHostname toLowerCase st url =
     (if \<not> enabled (settings st) then False
      else if goalsAchieved st then False
      else case urlHostname url of
        None \<Rightarrow> False
      | Some h \<Rightarrow>
          (let hostname = toLowerCase h in
           if list_ex (\<lambda>domain. includesStr hostname domain) (allowedDomains (settings st))
           then False
           else list_ex
                  (\<lambda>pattern.
                     includesStr (normalizedHostname hostname)
                       (normalizedPattern toLowerCase pattern)
                     \<or> includesStr (normalizedPattern toLowerCase pattern)
                          (normalizedHostname hostname))
                  (blockedWebsites (settings st))))"

text \<open>
  A small instance of the URL parameter for concrete evaluations: it accepts
  \<open>http://host/...\<close> and \<open>https://host/...\<close> and rejects every other string.
\<close>

definition exampleHostname :: "string \<Rightarrow> string option" where
  "exampleHostname url =
     (if prefix ''https://'' url then Some (takeWhile (\<lambda>c. c \<noteq> CHR ''/'') (drop 8 url))
      else if prefix ''http://'' url then Some (takeWhile (\<lambda>c. c \<noteq> CHR ''/'') (drop 7 url))
      else None)"

subsection \<open>Loading the settings\<close>

text \<open>
  What \<open>localStorage.getItem\<close> and \<open>JSON.parse\<close> give \<open>loadSettings\<close>: no item
  (\<open>null\<close> or the empty string), an item on which the \<open>try\<close> block throws, or a
  parsed object. In the parsed object \<open>locationGoal\<close> may be missing (or not an object)
  and each of its properties may be missing; the other properties are taken at their
  declared types, as \<open>loadSettings\<close> returns them unchanged.
\<close>

record SavedGoal =
  s_gymName :: "string option"
  s_latitude :: "real option"
  s_longitude :: "real option"
  s_radiusMeters :: "real option"
  s_requiredMinutes :: "int option"

record SavedSettings =
  s_enabled :: bool
  s_strictMode :: bool
  s_strictModeActivatedAt :: "int option"
  s_trackingMode :: TrackingMode
  s_dailyGoal :: int
  s_locationGoal :: "SavedGoal option"
  s_blockedApps :: "string list"
  s_blockedWebsites :: "string list"
  s_allowedDomains :: "string list"
  s_blockingMessage :: string

datatype SavedItem = NoItem | Unparseable | Parsed SavedSettings

definition defaultLocationGoal :: LocationGoal where
  "defaultLocationGoal =
     \<lparr>gymName = ''My Gym'', latitude = 0, longitude = 0, radiusMeters = 150,
      requiredMinutes = 60\<rparr>"

definition defaultSettings :: BlockingSettings where
  "defaultSettings =
     \<lparr>enabled = False, strictMode = False, strictModeActivatedAt = None,
      trackingMode = Steps, dailyGoal = 10000, locationGoal = defaultLocationGoal,
      blockedApps = [''Social Media'', ''Games'', ''Video Streaming''],
      blockedWebsites =
        [''facebook.com'', ''twitter.com'', ''instagram.com'', ''youtube.com'', ''tiktok.com''],
      allowedDomains = [''localhost'', ''127.0.0.1''],
      blockingMessage = ''This site is blocked until you reach your daily goal!''\<rparr>"

text \<open>\<open>x || d\<close> on an optional string and on an optional number.\<close>

definition orString :: "string option \<Rightarrow> string \<Rightarrow> string" where
  "orString x d = (case x of None \<Rightarrow> d | Some v \<Rightarrow> if v = [] then d else v)"

definition orNumber :: "'a::zero option \<Rightarrow> 'a \<Rightarrow> 'a" where
  "orNumber x d = (case x of None \<Rightarrow> d | Some v \<Rightarrow> if v = 0 then d else v)"

definition loadSettings :: "SavedItem \<Rightarrow> BlockingSettings" where
  "loadSettings saved =
     (case saved of
        NoItem \<Rightarrow> defaultSettings
      | Unparseable \<Rightarrow> defaultSettings
      | Parsed parsed \<Rightarrow>
          \<lparr>enabled = s_enabled parsed,
           strictMode = False,
           strictModeActivatedAt = None,
           trackingMode = s_trackingMode parsed,
           dailyGoal = s_dailyGoal parsed,
           locationGoal =
             (case s_locationGoal parsed of
                None \<Rightarrow> defaultLocationGoal
              | Some g \<Rightarrow>
                  \<lparr>gymName = orString (s_gymName g) ''My Gym'',
                   latitude = orNumber (s_latitude g) 0,
                   longitude = orNumber (s_longitude g) 0,
                   radiusMeters = orNumber (s_radiusMeters g) 150,
                   requiredMinutes = orNumber (s_requiredMinutes g) 60\<rparr>),
           blockedApps = s_blockedApps parsed,
           blockedWebsites = s_blockedWebsites parsed,
           allowedDomains = s_allowedDomains parsed,
           blockingMessage = s_blockingMessage parsed\<rparr>)"

text \<open>
  \<open>checkStepGoal\<close> has no \<open>await\<close>, so its body runs when it is called: from the
  constructor (through \<open>startMonitoring\<close>) and from the five-minute timer. Its inputs are
  the integers stored under \<open>stepTracker_currentSteps\<close> and \<open>stepTracker_gymTime\<close>,
  when present.
\<close>

definition checkStepGoal :: "int option \<Rightarrow> int option \<Rightarrow> BlockingService \<Rightarrow> BlockingService" where
  "checkStepGoal storedSteps storedGymTime st =
     (let st1 = (case storedSteps of None \<Rightarrow> st | Some n \<Rightarrow> updateStepCount n st)
      in case storedGymTime of None \<Rightarrow> st1 | Some m \<Rightarrow> updateGymTime m st1)"

text \<open>The constructor: field initialisers, \<open>loadSettings\<close>, \<open>startMonitoring\<close>.\<close>

definition newBlockingService :: "SavedItem \<Rightarrow> int option \<Rightarrow> int option \<Rightarrow> BlockingService" where
  "newBlockingService saved storedSteps storedGymTime =
     checkStepGoal storedSteps storedGymTime
       \<lparr>settings = loadSettings saved, currentSteps = 0, currentGymTime = 0,
        isStepGoalAchieved = False, isGymGoalAchieved = False\<rparr>"

subsection \<open>Updating and reading the settings\<close>

text \<open>
  \<open>Partial<BlockingSettings>\<close>: \<open>None\<close> is an absent property. \<open>strictModeActivatedAt\<close>
  is optional in \<open>BlockingSettings\<close> itself, so it can be present with the value
  \<open>undefined\<close> (\<open>Some None\<close>), which the spread copies like any other value.
\<close>

record PartialSettings =
  p_enabled :: "bool option"
  p_strictMode :: "bool option"
  p_strictModeActivatedAt :: "int option option"
  p_trackingMode :: "TrackingMode option"
  p_dailyGoal :: "int option"
  p_locationGoal :: "LocationGoal option"
  p_blockedApps :: "string list option"
  p_blockedWebsites :: "string list option"
  p_allowedDomains :: "string list option"
  p_blockingMessage :: "string option"

definition noChange :: PartialSettings where
  "noChange =
     \<lparr>p_enabled = None, p_strictMode = None, p_strictModeActivatedAt = None,
      p_trackingMode = None, p_dailyGoal = None, p_locationGoal = None,
      p_blockedApps = None, p_blockedWebsites = None, p_allowedDomains = None,
      p_blockingMessage = None\<rparr>"

text \<open>\<open>{ ...this.settings, ...newSettings }\<close>\<close>

definition spread :: "BlockingSettings \<Rightarrow> PartialSettings \<Rightarrow> BlockingSettings" where
  "spread old new =
     \<lparr>enabled = (case p_enabled new of None \<Rightarrow> enabled old | Some v \<Rightarrow> v),
      strictMode = (case p_strictMode new of None \<Rightarrow> strictMode old | Some v \<Rightarrow> v),
      strictModeActivatedAt =
        (case p_strictModeActivatedAt new of None \<Rightarrow> strictModeActivatedAt old | Some v \<Rightarrow> v),
      trackingMode = (case p_trackingMode new of None \<Rightarrow> trackingMode old | Some v \<Rightarrow> v),
      dailyGoal = (case p_dailyGoal new of None \<Rightarrow> dailyGoal old | Some v \<Rightarrow> v),
      locationGoal = (case p_locationGoal new of None \<Rightarrow> locationGoal old | Some v \<Rightarrow> v),
      blockedApps = (case p_blockedApps new of None \<Rightarrow> blockedApps old | Some v \<Rightarrow> v),
      blockedWebsites =
        (case p_blockedWebsites new of None \<Rightarrow> blockedWebsites old | Some v \<Rightarrow> v),
      allowedDomains =
        (case p_allowedDomains new of None \<Rightarrow> allowedDomains old | Some v \<Rightarrow> v),
      blockingMessage =
        (case p_blockingMessage new of None \<Rightarrow> blockingMessage old | Some v \<Rightarrow> v)\<rparr>"

text \<open>
  \<open>updateSettings\<close>. The strict-mode lock is commented out in the source, so no branch
  returns early. The three \<open>if\<close> statements rewrite the argument in turn (\<open>n1\<close>,
  \<open>n2\<close>, \<open>n3\<close>), then the spread merges it. \<open>saveSettings\<close> writes storage, which this
  instance does not read again; \<open>notifyListeners\<close> changes no field.
\<close>

definition updateSettings :: "PartialSettings \<Rightarrow> BlockingService \<Rightarrow> BlockingService" where
  "updateSettings newSettings st =
     (let n1 = (if p_strictMode newSettings = Some True
                then newSettings\<lparr>p_strictMode := Some False\<rparr> else newSettings);
          n2 = (if p_strictMode n1 = Some False
                then n1\<lparr>p_strictModeActivatedAt := Some None\<rparr> else n1);
          n3 = (case p_locationGoal n2 of
                  None \<Rightarrow> n2
                | Some g \<Rightarrow> n2\<lparr>p_locationGoal := Some (g\<lparr>radiusMeters := 150\<rparr>)\<rparr>)
      in st\<lparr>settings := spread (settings st) n3\<rparr>)"

definition getSettings :: "BlockingService \<Rightarrow> BlockingSettings" where
  "getSettings st = settings st"

subsection \<open>The status snapshot\<close>

record BlockingStatus =
  isBlocked :: bool
  reason :: string
  status_trackingMode :: TrackingMode
  status_currentSteps :: int
  goalSteps :: int
  remainingSteps :: int
  status_currentGymTime :: int
  goalGymTime :: int
  remainingGymTime :: int
  stepGoalAchieved :: bool
  gymGoalAchieved :: bool
  strictModeTimeRemaining :: "int option"

definition statusReason :: "BlockingService \<Rightarrow> string" where
  "statusReason st =
     (case trackingMode (settings st) of
        Steps \<Rightarrow> if isStepGoalAchieved st then ''Step goal achieved'' else ''Step goal not reached''
      | Location \<Rightarrow>
          if isGymGoalAchieved st then ''Gym goal achieved'' else ''Gym time goal not reached''
      | Both \<Rightarrow>
          if isStepGoalAchieved st \<and> isGymGoalAchieved st then ''Both goals achieved''
          else if \<not> isStepGoalAchieved st \<and> \<not> isGymGoalAchieved st
            then ''Both step and gym goals not reached''
          else if \<not> isStepGoalAchieved st then ''Step goal not reached''
          else ''Gym goal not reached'')"

text \<open>
  \<open>getBlockingStatus\<close>, with \<open>Date.now()\<close> as the parameter \<open>now\<close>. The test
  \<open>strictMode && strictModeActivatedAt\<close> is false for a missing timestamp and for 0.
\<close>

definition getBlockingStatus :: "int \<Rightarrow> BlockingService \<Rightarrow> BlockingStatus" where
  "getBlockingStatus now st =
     \<lparr>isBlocked = (enabled (settings st) \<and> \<not> goalsAchieved st),
      reason = statusReason st,
      status_trackingMode = trackingMode (settings st),
      status_currentSteps = currentSteps st,
      goalSteps = dailyGoal (settings st),
      remainingSteps = max 0 (dailyGoal (settings st) - currentSteps st),
      status_currentGymTime = currentGymTime st,
      goalGymTime = requiredMinutesOr60 (locationGoal (settings st)),
      remainingGymTime =
        max 0 (requiredMinutesOr60 (locationGoal (settings st)) - currentGymTime st),
      stepGoalAchieved = isStepGoalAchieved st,
      gymGoalAchieved = isGymGoalAchieved st,
      strictModeTimeRemaining =
        (case strictModeActivatedAt (settings st) of
           None \<Rightarrow> None
         | Some activatedAt \<Rightarrow>
             if strictMode (settings st) \<and> activatedAt \<noteq> 0
             then Some (max 0 (21 * 24 * 60 * 60 * 1000 - (now - activatedAt)))
             else None)\<rparr>"

text \<open>
  The states an engine can be in: built by the constructor from whatever storage holds,
  then changed by the public operations (the timer's \<open>checkStepGoal\<close> is made of two of
  them).
\<close>

inductive reachable :: "BlockingService \<Rightarrow> bool" where
  construct: "reachable (newBlockingService saved storedSteps storedGymTime)"
| settings_updated: "reachable st \<Longrightarrow> reachable (updateSettings newSettings st)"
| steps_updated: "reachable st \<Longrightarrow> reachable (updateStepCount n st)"
| gym_time_updated: "reachable st \<Longrightarrow> reachable (updateGymTime m st)"

section \<open>\<open>getSettings\<close> and sharing\<close>

text \<open>
  \<open>getSettings\<close> returns \<open>{ ...this.settings }\<close>: a new object whose properties hold
  the same values as those of \<open>this.settings\<close>. For the nested \<open>locationGoal\<close> object and
  the three arrays the value of a property is a reference. To follow what a caller's writes
  reach, objects live in a store and are named by addresses.
\<close>

type_synonym addr = nat

type_synonym SettingsObj = "(addr, addr) Settings"

record Store =
  settingsObjs :: "addr \<rightharpoonup> SettingsObj"
  goalObjs :: "addr \<rightharpoonup> LocationGoal"
  arrayObjs :: "addr \<rightharpoonup> string list"
  nextAddr :: addr

text \<open>The object literal allocates at \<open>nextAddr\<close>; the spread copies every property.\<close>

definition getSettingsRef :: "addr \<Rightarrow> Store \<Rightarrow> addr \<times> Store" where
  "getSettingsRef this_settings \<sigma> =
     (let a = nextAddr \<sigma>
      in (a, \<sigma>\<lparr>settingsObjs := (settingsObjs \<sigma>)(a := settingsObjs \<sigma> this_settings),
                nextAddr := a + 1\<rparr>))"

text \<open>The settings that an object denotes, its references read through the store.\<close>

definition resolve :: "Store \<Rightarrow> SettingsObj \<Rightarrow> BlockingSettings option" where
  "resolve \<sigma> obj =
     (case (goalObjs \<sigma> (locationGoal obj), arrayObjs \<sigma> (blockedApps obj),
            arrayObjs \<sigma> (blockedWebsites obj), arrayObjs \<sigma> (allowedDomains obj)) of
        (Some g, Some apps, Some sites, Some domains) \<Rightarrow>
          Some \<lparr>enabled = enabled obj, strictMode = strictMode obj,
                strictModeActivatedAt = strictModeActivatedAt obj,
                trackingMode = trackingMode obj, dailyGoal = dailyGoal obj,
                locationGoal = g, blockedApps = apps, blockedWebsites = sites,
                allowedDomains = domains, blockingMessage = blockingMessage obj\<rparr>
      | _ \<Rightarrow> None)"

definition readSettings :: "Store \<Rightarrow> addr \<Rightarrow> BlockingSettings option" where
  "readSettings \<sigma> a =
     (case settingsObjs \<sigma> a of None \<Rightarrow> None | Some obj \<Rightarrow> resolve \<sigma> obj)"

text \<open>
  What a caller can do with the returned object \<open>r\<close>: assign one of its own properties
  (\<open>r.dailyGoal = 1\<close>, \<open>r.locationGoal = other\<close>), or write into an object that one of
  its properties refers to (\<open>r.locationGoal.radiusMeters = 300\<close>,
  \<open>r.blockedWebsites.push(x)\<close>, \<open>r.blockedWebsites.length = 0\<close>).
\<close>

datatype Assignment =
  AssignEnabled bool
| AssignStrictMode bool
| AssignStrictModeActivatedAt "int option"
| AssignTrackingMode TrackingMode
| AssignDailyGoal int
| AssignLocationGoal addr
| AssignBlockedApps addr
| AssignBlockedWebsites addr
| AssignAllowedDomains addr
| AssignBlockingMessage string

datatype NestedWrite =
  WriteGymName string
| WriteLatitude real
| WriteLongitude real
| WriteRadiusMeters real
| WriteRequiredMinutes int
| PushBlockedApps string
| PushBlockedWebsites string
| PushAllowedDomains string
| ClearBlockedApps
| ClearBlockedWebsites
| ClearAllowedDomains

fun assign :: "Assignment \<Rightarrow> SettingsObj \<Rightarrow> SettingsObj" where
  "assign (AssignEnabled v) obj = obj\<lparr>enabled := v\<rparr>"
| "assign (AssignStrictMode v) obj = obj\<lparr>strictMode := v\<rparr>"
| "assign (AssignStrictModeActivatedAt v) obj = obj\<lparr>strictModeActivatedAt := v\<rparr>"
| "assign (AssignTrackingMode v) obj = obj\<lparr>trackingMode := v\<rparr>"
| "assign (AssignDailyGoal v) obj = obj\<lparr>dailyGoal := v\<rparr>"
| "assign (AssignLocationGoal v) obj = obj\<lparr>locationGoal := v\<rparr>"
| "assign (AssignBlockedApps v) obj = obj\<lparr>blockedApps := v\<rparr>"
| "assign (AssignBlockedWebsites v) obj = obj\<lparr>blockedWebsites := v\<rparr>"
| "assign (AssignAllowedDomains v) obj = obj\<lparr>allowedDomains := v\<rparr>"
| "assign (AssignBlockingMessage v) obj = obj\<lparr>blockingMessage := v\<rparr>"

definition callerAssigns :: "Assignment \<Rightarrow> addr \<Rightarrow> Store \<Rightarrow> Store" where
  "callerAssigns x r \<sigma> =
     (case settingsObjs \<sigma> r of
        None \<Rightarrow> \<sigma>
      | Some obj \<Rightarrow> \<sigma>\<lparr>settingsObjs := (settingsObjs \<sigma>)(r \<mapsto> assign x obj)\<rparr>)"

definition writeGoal :: "(LocationGoal \<Rightarrow> LocationGoal) \<Rightarrow> addr \<Rightarrow> Store \<Rightarrow> Store" where
  "writeGoal f a \<sigma> =
     (case goalObjs \<sigma> a of
        None \<Rightarrow> \<sigma>
      | Some g \<Rightarrow> \<sigma>\<lparr>goalObjs := (goalObjs \<sigma>)(a \<mapsto> f g)\<rparr>)"

definition writeArray :: "(string list \<Rightarrow> string list) \<Rightarrow> addr \<Rightarrow> Store \<Rightarrow> Store" where
  "writeArray f a \<sigma> =
     (case arrayObjs \<sigma> a of
        None \<Rightarrow> \<sigma>
      | Some xs \<Rightarrow> \<sigma>\<lparr>arrayObjs := (arrayObjs \<sigma>)(a \<mapsto> f xs)\<rparr>)"

fun nestedWrite :: "NestedWrite \<Rightarrow> SettingsObj \<Rightarrow> Store \<Rightarrow> Store" where
  "nestedWrite (WriteGymName v) obj \<sigma> = writeGoal (\<lambda>g. g\<lparr>gymName := v\<rparr>) (locationGoal obj) \<sigma>"
| "nestedWrite (WriteLatitude v) obj \<sigma> = writeGoal (\<lambda>g. g\<lparr>latitude := v\<rparr>) (locationGoal obj) \<sigma>"
| "nestedWrite (WriteLongitude v) obj \<sigma> = writeGoal (\<lambda>g. g\<lparr>longitude := v\<rparr>) (locationGoal obj) \<sigma>"
| "nestedWrite (WriteRadiusMeters v) obj \<sigma> =
     writeGoal (\<lambda>g. g\<lparr>radiusMeters := v\<rparr>) (locationGoal obj) \<sigma>"
| "nestedWrite (WriteRequiredMinutes v) obj \<sigma> =
     writeGoal (\<lambda>g. g\<lparr>requiredMinutes := v\<rparr>) (locationGoal obj) \<sigma>"
| "nestedWrite (PushBlockedApps v) obj \<sigma> = writeArray (\<lambda>xs. xs @ [v]) (blockedApps obj) \<sigma>"
| "nestedWrite (PushBlockedWebsites v) obj \<sigma> =
     writeArray (\<lambda>xs. xs @ [v]) (blockedWebsites obj) \<sigma>"
| "nestedWrite (PushAllowedDomains v) obj \<sigma> =
     writeArray (\<lambda>xs. xs @ [v]) (allowedDomains obj) \<sigma>"
| "nestedWrite ClearBlockedApps obj \<sigma> = writeArray (\<lambda>xs. []) (blockedApps obj) \<sigma>"
| "nestedWrite ClearBlockedWebsites obj \<sigma> = writeArray (\<lambda>xs. []) (blockedWebsites obj) \<sigma>"
| "nestedWrite ClearAllowedDomains obj \<sigma> = writeArray (\<lambda>xs. []) (allowedDomains obj) \<sigma>"

definition callerWrites :: "NestedWrite \<Rightarrow> addr \<Rightarrow> Store \<Rightarrow> Store" where
  "callerWrites w r \<sigma> =
     (case settingsObjs \<sigma> r of None \<Rightarrow> \<sigma> | Some obj \<Rightarrow> nestedWrite w obj \<sigma>)"

text \<open>
  A store holding one engine: \<open>this.settings\<close> at address 0 with the default settings,
  its \<open>locationGoal\<close> at 1 and its arrays at 2, 3 and 4.
\<close>

definition exampleStore :: Store where
  "exampleStore =
     \<lparr>settingsObjs =
        [0 \<mapsto> \<lparr>enabled = False, strictMode = False, strictModeActivatedAt = None,
                trackingMode = Steps, dailyGoal = 10000, locationGoal = 1,
                blockedApps = 2, blockedWebsites = 3, allowedDomains = 4,
                blockingMessage = blockingMessage defaultSettings\<rparr>],
      goalObjs = [1 \<mapsto> defaultLocationGoal],
      arrayObjs =
        [2 \<mapsto> blockedApps defaultSettings, 3 \<mapsto> blockedWebsites defaultSettings,
         4 \<mapsto> allowedDomains defaultSettings],
      nextAddr = 5\<rparr>"

section \<open>The location tracker\<close>

record LocationData =
  loc_latitude :: real
  loc_longitude :: real
  accuracy :: real
  timestamp :: int

text \<open>The prop \<open>gymLocation\<close>.\<close>

record GymLocation =
  gym_latitude :: real
  gym_longitude :: real
  gym_name :: string
  gym_radiusMeters :: real

text \<open>
  The component's state (\<open>useState\<close>), with what the callback writes outside it: the
  \<open>localStorage\<close> entries \<open>stepTracker_gymTime_<day>\<close> and the calls of
  \<open>onGymStatusChange\<close>, in order. Dates are milliseconds since the epoch. The loading
  and error flags and the watch id are left out.
\<close>

record Tracker =
  currentLocation :: "LocationData option"
  locationHistory :: "LocationData list"
  estimatedSteps :: int
  isAtGym :: bool
  gymSessionStart :: "int option"
  totalGymTimeToday :: int
  currentSessionTime :: int
  gymTimeStorage :: "string \<rightharpoonup> int"
  gymStatusChanges :: "(bool \<times> int) list"

text \<open>One delivery of a position: the fix, and what \<open>new Date()\<close> reads when it is handled.\<close>

record Delivery =
  position :: LocationData
  now :: int
  today :: string

definition effectiveRadius :: "GymLocation \<Rightarrow> LocationData \<Rightarrow> real" where
  "effectiveRadius gymLocation locationData =
     max (gym_radiusMeters gymLocation) (accuracy locationData * 1.5)"

text \<open>
  \<open>calculateDistance\<close> is the haversine formula; the callback only compares its result,
  and the distance function is a parameter here.
\<close>

definition nowAtGym ::
  "(real \<Rightarrow> real \<Rightarrow> real \<Rightarrow> real \<Rightarrow> real) \<Rightarrow> GymLocation \<Rightarrow> LocationData \<Rightarrow> bool" where
  "nowAtGym calculateDistance gymLocation locationData =
     (calculateDistance (loc_latitude locationData) (loc_longitude locationData)
        (gym_latitude gymLocation) (gym_longitude gymLocation)
      \<le> effectiveRadius gymLocation locationData)"

text \<open>\<open>Math.round\<close>\<close>

definition mathRound :: "real \<Rightarrow> int" where
  "mathRound x = \<lfloor>x + 1 / 2\<rfloor>"

text \<open>
  \<open>successCallback\<close> is created inside \<open>startTracking\<close> and closes over the state
  variables of the render in which \<open>startTracking\<close> ran: \<open>captured\<close>. What it reads
  directly (\<open>locationHistory\<close>, \<open>isAtGym\<close>, \<open>gymSessionStart\<close>,
  \<open>totalGymTimeToday\<close>) it reads from \<open>captured\<close>; what it sets, it sets in the
  component's current state \<open>st\<close>, and the updater forms (\<open>prev => ...\<close>) read \<open>st\<close>.
\<close>

text \<open>The block under \<open>if (gymLocation)\<close>.\<close>

definition gymCheck ::
  "Tracker \<Rightarrow> GymLocation \<Rightarrow> (real \<Rightarrow> real \<Rightarrow> real \<Rightarrow> real \<Rightarrow> real) \<Rightarrow> Delivery \<Rightarrow> Tracker \<Rightarrow> Tracker" where
  "gymCheck captured gymLocation calculateDistance d st =
     (let wasAtGym = isAtGym captured;
          nowAt = nowAtGym calculateDistance gymLocation (position d)
      in if nowAt \<and> \<not> wasAtGym then
           st\<lparr>isAtGym := True, gymSessionStart := Some (now d), currentSessionTime := 0\<rparr>
         else if \<not> nowAt \<and> wasAtGym then
           (let st1 = st\<lparr>isAtGym := False\<rparr>;
                st2 =
                  (case gymSessionStart captured of
                     None \<Rightarrow> st1
                   | Some start \<Rightarrow>
                       (let sessionMinutes = (now d - start) div (1000 * 60);
                            newTotalTime = totalGymTimeToday captured + sessionMinutes
                        in st1\<lparr>totalGymTimeToday := newTotalTime,
                               gymTimeStorage :=
                                 (gymTimeStorage st1)
                                   (''stepTracker_gymTime_'' @ today d \<mapsto> newTotalTime),
                               gymStatusChanges :=
                                 gymStatusChanges st1 @ [(False, newTotalTime)]\<rparr>))
            in st2\<lparr>gymSessionStart := None, currentSessionTime := 0\<rparr>)
         else if nowAt \<and> wasAtGym then
           (case gymSessionStart captured of
              None \<Rightarrow> st
            | Some start \<Rightarrow>
                (let sessionMinutes = (now d - start) div (1000 * 60)
                 in st\<lparr>currentSessionTime := sessionMinutes,
                       gymStatusChanges :=
                         gymStatusChanges st
                         @ [(True, totalGymTimeToday captured + sessionMinutes)]\<rparr>))
         else st)"

definition successCallback ::
  "Tracker \<Rightarrow> GymLocation option \<Rightarrow> (real \<Rightarrow> real \<Rightarrow> real \<Rightarrow> real \<Rightarrow> real) \<Rightarrow> Delivery \<Rightarrow> Tracker \<Rightarrow> Tracker" where
  "successCallback captured gymLocation calculateDistance d st =
     (let locationData = position d;
          st1 = st\<lparr>currentLocation := Some locationData,
                   locationHistory :=
                     (let newHistory = locationHistory st @ [locationData]
                      in drop (length newHistory - 50) newHistory)\<rparr>;
          st2 =
            (if locationHistory captured \<noteq> [] then
               (let lastLocation = last (locationHistory captured);
                    distance =
                      calculateDistance (loc_latitude lastLocation) (loc_longitude lastLocation)
                        (loc_latitude locationData) (loc_longitude locationData)
                in st1\<lparr>estimatedSteps := estimatedSteps st1 + mathRound (distance * 1.3)\<rparr>)
             else st1)
      in case gymLocation of
           None \<Rightarrow> st2
         | Some g \<Rightarrow> gymCheck captured g calculateDistance d st2)"

text \<open>
  \<open>navigator.geolocation.watchPosition\<close> hands every later position to the one callback
  it was given.
\<close>

fun watchPosition :: "(Delivery \<Rightarrow> Tracker \<Rightarrow> Tracker) \<Rightarrow> Delivery list \<Rightarrow> Tracker \<Rightarrow> Tracker" where
  "watchPosition callback [] st = st"
| "watchPosition callback (d # ds) st = watchPosition callback ds (callback d st)"

text \<open>
  \<open>startTracking\<close> runs from the effect whose dependency list is \<open>[isTracking]\<close>: it
  builds the callback over the state of that render and registers it; \<open>ds\<close> are the
  positions delivered until the watch is cleared. The component's other effect runs
  between deliveries, outside the callback: it copies a stored total for the day, when
  there is one, into \<open>totalGymTimeToday\<close>, and refreshes \<open>currentSessionTime\<close> each
  minute.
\<close>

definition startTracking ::
  "GymLocation option \<Rightarrow> (real \<Rightarrow> real \<Rightarrow> real \<Rightarrow> real \<Rightarrow> real) \<Rightarrow> Delivery list \<Rightarrow> Tracker \<Rightarrow> Tracker" where
  "startTracking gymLocation calculateDistance ds st =
     watchPosition (successCallback st gymLocation calculateDistance) ds st"

text \<open>The state of the component when it mounts (the \<open>useState\<close> initial values).\<close>

definition mounted :: Tracker where
  "mounted =
     \<lparr>currentLocation = None, locationHistory = [], estimatedSteps = 0, isAtGym = False,
      gymSessionStart = None, totalGymTimeToday = 0, currentSessionTime = 0,
      gymTimeStorage = Map.empty, gymStatusChanges = []\<rparr>"

text \<open>
  For concrete evaluations: a gym at the origin with the radius the settings give it, a
  distance in metres on a flat grid of degrees, a fix at the gym and a fix one degree
  away.
\<close>

definition exampleGym :: GymLocation where
  "exampleGym =
     \<lparr>gym_latitude = 0, gym_longitude = 0, gym_name = ''My Gym'', gym_radiusMeters = 150\<rparr>"

definition exampleDistance :: "real \<Rightarrow> real \<Rightarrow> real \<Rightarrow> real \<Rightarrow> real" where
  "exampleDistance lat1 lon1 lat2 lon2 = 111000 * (\<bar>lat2 - lat1\<bar> + \<bar>lon2 - lon1\<bar>)"

definition fixAtGym :: "int \<Rightarrow> LocationData" where
  "fixAtGym t = \<lparr>loc_latitude = 0, loc_longitude = 0, accuracy = 10, timestamp = t\<rparr>"

definition fixAway :: "int \<Rightarrow> LocationData" where
  "fixAway t = \<lparr>loc_latitude = 1, loc_longitude = 0, accuracy = 10, timestamp = t\<rparr>"

section \<open>Concrete runs\<close>

text \<open>A new engine over empty storage, with blocking switched on.\<close>

definition enabledEngine :: BlockingService where
  "enabledEngine =
     updateSettings (noChange\<lparr>p_enabled := Some True\<rparr>) (newBlockingService NoItem None None)"

text \<open>5000 steps are reported against the goal of 10000, then the goal is lowered to 3000.\<close>

definition goalLowered :: BlockingService where
  "goalLowered =
     updateSettings (noChange\<lparr>p_dailyGoal := Some 3000\<rparr>) (updateStepCount 5000 enabledEngine)"

text \<open>
  The block-list is one pattern written with a scheme, \<open>www.\<close> and a capital letter, and
  the goal is 3000; 5000 steps are reported; then the goal is raised to 10000.
\<close>

definition goalRaised :: BlockingService where
  "goalRaised =
     updateSettings (noChange\<lparr>p_dailyGoal := Some 10000\<rparr>)
       (updateStepCount 5000
          (updateSettings
             (noChange\<lparr>p_dailyGoal := Some 3000,
                       p_blockedWebsites := Some [''https://www.Facebook.com'']\<rparr>)
             enabledEngine))"

text \<open>Block-lists on which the match depends on what is stripped.\<close>

definition schemePattern :: BlockingService where
  "schemePattern =
     updateSettings (noChange\<lparr>p_blockedWebsites := Some [''HTTP://x.com'']\<rparr>) enabledEngine"

definition wwwPattern :: BlockingService where
  "wwwPattern =
     updateSettings (noChange\<lparr>p_blockedWebsites := Some [''www.x.com'']\<rparr>) enabledEngine"

definition pathPattern :: BlockingService where
  "pathPattern =
     updateSettings (noChange\<lparr>p_blockedWebsites := Some [''x.com/news'']\<rparr>) enabledEngine"

text \<open>The same hostname is put on the allow-list while it is on the block-list.\<close>

definition allowedAndBlocked :: BlockingService where
  "allowedAndBlocked =
     updateSettings (noChange\<lparr>p_allowedDomains := Some [''facebook.com'']\<rparr>) enabledEngine"

text \<open>An activation timestamp is stored, then an update gives \<open>strictMode\<close> and a timestamp.\<close>

definition timestampStored :: BlockingService where
  "timestampStored =
     updateSettings (noChange\<lparr>p_strictModeActivatedAt := Some (Some 7)\<rparr>)
       (newBlockingService NoItem None None)"

definition strictModeOffAt5 :: PartialSettings where
  "strictModeOffAt5 =
     noChange\<lparr>p_strictMode := Some False, p_strictModeActivatedAt := Some (Some 5)\<rparr>"

text \<open>Updates that ask for strict mode, and for a geofence of 200 metres.\<close>

definition strictModeOn :: PartialSettings where
  "strictModeOn = noChange\<lparr>p_strictMode := Some True\<rparr>"

definition gymRadius200 :: PartialSettings where
  "gymRadius200 =
     noChange\<lparr>p_locationGoal := Some (defaultLocationGoal\<lparr>radiusMeters := 200\<rparr>)\<rparr>"

text \<open>Storage holds settings with strict mode on and a geofence radius of 200 metres.\<close>

definition savedRadius200 :: SavedItem where
  "savedRadius200 =
     Parsed
       \<lparr>s_enabled = True, s_strictMode = True, s_strictModeActivatedAt = Some 5,
        s_trackingMode = Location, s_dailyGoal = 10000,
        s_locationGoal =
          Some \<lparr>s_gymName = Some ''Gym'', s_latitude = Some 1, s_longitude = Some 2,
                s_radiusMeters = Some 200, s_requiredMinutes = Some 45\<rparr>,
        s_blockedApps = [], s_blockedWebsites = [''facebook.com''],
        s_allowedDomains = [], s_blockingMessage = ''Blocked''\<rparr>"

definition strictModeRequested :: BlockingService where
  "strictModeRequested =
     updateSettings strictModeOn (newBlockingService savedRadius200 None None)"

text \<open>
  A visit: the component mounts with tracking on, a fix at the gym is delivered at
  \<open>t = 1000\<close> ms, and a fix one degree away 42 minutes later.
\<close>

definition arrival :: Delivery where
  "arrival = \<lparr>position = fixAtGym 1000, now = 1000, today = ''Mon Nov 02 2026''\<rparr>"

definition departure :: Delivery where
  "departure =
     \<lparr>position = fixAway (1000 + 42 * 60000), now = 1000 + 42 * 60000,
      today = ''Mon Nov 02 2026''\<rparr>"

definition visit :: Tracker where
  "visit = startTracking (Some exampleGym) exampleDistance [arrival, departure] mounted"

section \<open>Properties of the string helpers\<close>

lemma includesStr_sublist: "includesStr h n \<longleftrightarrow> sublist n h"
  by (induction h) (simp_all add: sublist_Cons_right)

text \<open>What the two replacements remove, and that they remove nothing else.\<close>

lemma stripWww_www: "stripWww (''www.'' @ s) = s"
  by (simp add: stripWww_def)

lemma stripWww_other: "\<not> prefix ''www.'' s \<Longrightarrow> stripWww s = s"
  by (simp add: stripWww_def)

lemma stripScheme_http: "stripScheme (''http://'' @ s) = s"
  by (simp add: stripScheme_def)

lemma stripScheme_https: "stripScheme (''https://'' @ s) = s"
  by (simp add: stripScheme_def)

lemma stripScheme_other:
  "\<not> prefix ''http://'' s \<Longrightarrow> \<not> prefix ''https://'' s \<Longrightarrow> stripScheme s = s"
  by (simp add: stripScheme_def)

text \<open>The replacements are applied once: a second \<open>www.\<close> stays.\<close>

lemma stripWww_once: "stripWww ''www.www.x.com'' = ''www.x.com''"
  by code_simp

lemma asciiLowerCase_length: "length (asciiLowerCase s) = length s"
  by (simp add: asciiLowerCase_def)

lemma asciiLowerCase_example:
  "asciiLowerCase ''HTTPS://WWW.Facebook.COM/a-Z_09'' = ''https://www.facebook.com/a-z_09''"
  by code_simp

lemma normalizedPattern_example:
  "normalizedPattern asciiLowerCase ''HTTPS://WWW.Facebook.com'' = ''facebook.com''
   \<and> normalizedPattern asciiLowerCase ''http://Facebook.com'' = ''facebook.com''
   \<and> normalizedPattern asciiLowerCase ''www.facebook.com'' = ''facebook.com''
   \<and> normalizedPattern asciiLowerCase ''ftp://www.facebook.com'' = ''ftp://www.facebook.com''
   \<and> normalizedHostname ''www.facebook.com'' = ''facebook.com''
   \<and> normalizedHostname ''m.facebook.com'' = ''m.facebook.com''"
  by code_simp

section \<open>Properties of the blocking service\<close>

subsection \<open>What the operations leave alone\<close>

lemma settings_updateGoalStatus [simp]: "settings (updateGoalStatus st) = settings st"
  by (simp add: updateGoalStatus_def)

lemma settings_updateStepCount [simp]: "settings (updateStepCount n st) = settings st"
  by (simp add: updateStepCount_def)

lemma settings_updateGymTime [simp]: "settings (updateGymTime m st) = settings st"
  by (simp add: updateGymTime_def)

lemma settings_checkStepGoal [simp]: "settings (checkStepGoal a b st) = settings st"
  by (simp add: checkStepGoal_def split: option.splits)

lemma settings_newBlockingService [simp]:
  "settings (newBlockingService saved a b) = loadSettings saved"
  by (simp add: newBlockingService_def)

text \<open>
  The two flags are set by \<open>updateStepCount\<close> and \<open>updateGymTime\<close> from the
  comparisons; \<open>updateSettings\<close> does not touch them, also when it changes a goal.
\<close>

lemma flags_updateStepCount:
  "isStepGoalAchieved (updateStepCount n st) = (n \<ge> dailyGoal (settings st))"
  "isGymGoalAchieved (updateStepCount n st) =
     (currentGymTime st \<ge> requiredMinutesOr60 (locationGoal (settings st)))"
  by (simp_all add: updateStepCount_def updateGoalStatus_def)

lemma flags_updateGymTime:
  "isStepGoalAchieved (updateGymTime m st) = (currentSteps st \<ge> dailyGoal (settings st))"
  "isGymGoalAchieved (updateGymTime m st) =
     (m \<ge> requiredMinutesOr60 (locationGoal (settings st)))"
  by (simp_all add: updateGymTime_def updateGoalStatus_def)

lemma flags_updateSettings:
  "isStepGoalAchieved (updateSettings newSettings st) = isStepGoalAchieved st"
  "isGymGoalAchieved (updateSettings newSettings st) = isGymGoalAchieved st"
  by (simp_all add: updateSettings_def Let_def)

text \<open>Right after a progress update the goals of the mode are judged by the comparisons.\<close>

lemma goalsAchieved_updateStepCount:
  "goalsAchieved (updateStepCount n st) =
     (case trackingMode (settings st) of
        Steps \<Rightarrow> n \<ge> dailyGoal (settings st)
      | Location \<Rightarrow> currentGymTime st \<ge> requiredMinutesOr60 (locationGoal (settings st))
      | Both \<Rightarrow>
          n \<ge> dailyGoal (settings st)
          \<and> currentGymTime st \<ge> requiredMinutesOr60 (locationGoal (settings st)))"
  by (simp add: goalsAchieved_def flags_updateStepCount split: TrackingMode.splits)

lemma goalsAchieved_updateGymTime:
  "goalsAchieved (updateGymTime m st) =
     (case trackingMode (settings st) of
        Steps \<Rightarrow> currentSteps st \<ge> dailyGoal (settings st)
      | Location \<Rightarrow> m \<ge> requiredMinutesOr60 (locationGoal (settings st))
      | Both \<Rightarrow>
          currentSteps st \<ge> dailyGoal (settings st)
          \<and> m \<ge> requiredMinutesOr60 (locationGoal (settings st)))"
  by (simp add: goalsAchieved_def flags_updateGymTime split: TrackingMode.splits)

subsection \<open>The blocking decision\<close>

text \<open>The decision of \<open>shouldBlockWebsite\<close>, branch by branch, with substrings as \<open>sublist\<close>.\<close>

lemma shouldBlockWebsite_matching:
  "shouldBlockWebsite urlHostname toLowerCase st url \<longleftrightarrow>
     enabled (settings st) \<and> \<not> goalsAchieved st \<and>
     (\<exists>h. urlHostname url = Some h \<and>
        (\<forall>domain \<in> set (allowedDomains (settings st)). \<not> sublist domain (toLowerCase h)) \<and>
        (\<exists>pattern \<in> set (blockedWebsites (settings st)).
           sublist (normalizedPattern toLowerCase pattern) (normalizedHostname (toLowerCase h))
           \<or> sublist (normalizedHostname (toLowerCase h))
                (normalizedPattern toLowerCase pattern)))"
  by (auto simp add: shouldBlockWebsite_def Let_def list_ex_iff includesStr_sublist
      split: option.splits)

text \<open>
  Claim C1, at a state the public operations reach: blocking is switched on, 5000 steps
  are reported against the goal of 10000, and the goal is then lowered to 3000. The mode
  is Steps and \<open>currentSteps >= dailyGoal\<close> holds, yet the flag that
  \<open>shouldBlockWebsite\<close> consults still says the goal is not achieved, and a hostname of
  the block-list is blocked. The status snapshot of the same state reports no remaining
  steps and a goal that is not achieved.
\<close>

theorem stale_goal_flag_blocks:
  "enabled (settings goalLowered) \<and> trackingMode (settings goalLowered) = Steps
   \<and> currentSteps goalLowered = 5000 \<and> dailyGoal (settings goalLowered) = 3000
   \<and> \<not> isStepGoalAchieved goalLowered
   \<and> shouldBlockWebsite exampleHostname asciiLowerCase goalLowered ''https://facebook.com''
   \<and> remainingSteps (getBlockingStatus 0 goalLowered) = 0
   \<and> \<not> stepGoalAchieved (getBlockingStatus 0 goalLowered)
   \<and> isBlocked (getBlockingStatus 0 goalLowered)"
  by code_simp

text \<open>
  With the goals of the mode not achieved as \<open>shouldBlockWebsite\<close> reads them (from the
  two flags), a URL that parses and a lowercased hostname that contains no entry of the
  allow-list, the URL is blocked if and only if some pattern matches in one of the two
  directions.
\<close>

lemma blocked_iff_match_by_flags:
  assumes "enabled (settings st)"
    and "\<not> goalsAchieved st"
    and "urlHostname url = Some h"
    and "\<forall>domain \<in> set (allowedDomains (settings st)). \<not> sublist domain (toLowerCase h)"
  shows "shouldBlockWebsite urlHostname toLowerCase st url \<longleftrightarrow>
     (\<exists>pattern \<in> set (blockedWebsites (settings st)).
        sublist (stripWww (stripScheme (toLowerCase pattern))) (stripWww (toLowerCase h))
        \<or> sublist (stripWww (toLowerCase h)) (stripWww (stripScheme (toLowerCase pattern))))"
  using assms
  by (simp add: shouldBlockWebsite_matching normalizedPattern_def normalizedHostname_def)

text \<open>
  Matches that exist only because of what is stripped: the scheme of a pattern, the
  \<open>www.\<close> of a pattern, and the \<open>www.\<close> of a hostname (here the pattern contains the
  hostname). Unstripped, neither string contains the other.
\<close>

lemma stripping_decides_match:
  "shouldBlockWebsite exampleHostname asciiLowerCase schemePattern ''https://x.com.au/''
   \<and> \<not> sublist ''http://x.com'' ''x.com.au'' \<and> \<not> sublist ''x.com.au'' ''http://x.com''
   \<and> shouldBlockWebsite exampleHostname asciiLowerCase wwwPattern ''https://x.com.au/''
   \<and> \<not> sublist ''www.x.com'' ''x.com.au'' \<and> \<not> sublist ''x.com.au'' ''www.x.com''
   \<and> shouldBlockWebsite exampleHostname asciiLowerCase pathPattern ''https://WWW.x.com/''
   \<and> \<not> sublist ''x.com/news'' ''www.x.com'' \<and> \<not> sublist ''www.x.com'' ''x.com/news''
   \<and> \<not> shouldBlockWebsite exampleHostname asciiLowerCase pathPattern ''https://y.com/''"
  by code_simp

text \<open>
  Claim C2, at a state the public operations reach: blocking is on, the block-list is the
  one pattern \<open>https://www.Facebook.com\<close>, 5000 steps are reported against a goal of
  3000, and the goal is then raised to 10000. The mode is Steps and the goal is unmet
  (5000 < 10000); the hostname \<open>www.facebook.com\<close> contains no entry of the allow-list;
  the normalized pattern and the normalized hostname are both \<open>facebook.com\<close>, so the
  pattern matches. Yet the URL is not blocked, because the flag that
  \<open>shouldBlockWebsite\<close> consults still says the goal is achieved. After the next
  progress update the same URL is blocked.
\<close>

theorem stale_goal_flag_unblocks:
  "enabled (settings goalRaised) \<and> trackingMode (settings goalRaised) = Steps
   \<and> currentSteps goalRaised = 5000 \<and> dailyGoal (settings goalRaised) = 10000
   \<and> isStepGoalAchieved goalRaised
   \<and> exampleHostname ''https://www.facebook.com/x'' = Some ''www.facebook.com''
   \<and> allowedDomains (settings goalRaised) = [''localhost'', ''127.0.0.1'']
   \<and> \<not> sublist ''localhost'' (asciiLowerCase ''www.facebook.com'')
   \<and> \<not> sublist ''127.0.0.1'' (asciiLowerCase ''www.facebook.com'')
   \<and> blockedWebsites (settings goalRaised) = [''https://www.Facebook.com'']
   \<and> stripWww (stripScheme (asciiLowerCase ''https://www.Facebook.com'')) = ''facebook.com''
   \<and> stripWww (asciiLowerCase ''www.facebook.com'') = ''facebook.com''
   \<and> \<not> shouldBlockWebsite exampleHostname asciiLowerCase goalRaised
         ''https://www.facebook.com/x''
   \<and> shouldBlockWebsite exampleHostname asciiLowerCase (updateStepCount 5000 goalRaised)
         ''https://www.facebook.com/x''"
  by code_simp

text \<open>
  Claim C3. A URL whose parsed, lowercased hostname contains an entry of
  \<open>allowedDomains\<close> is not blocked, whatever the block-list, the switch and the goals
  are.
\<close>

theorem allowed_domain_never_blocked:
  assumes "urlHostname url = Some h"
    and "domain \<in> set (allowedDomains (settings st))"
    and "sublist domain (toLowerCase h)"
  shows "\<not> shouldBlockWebsite urlHostname toLowerCase st url"
  using assms by (auto simp add: shouldBlockWebsite_matching)

theorem allowed_domain_never_blocked_witness:
  "exampleHostname ''https://facebook.com'' = Some ''facebook.com''
   \<and> ''facebook.com'' \<in> set (allowedDomains (settings allowedAndBlocked))
   \<and> sublist ''facebook.com'' (asciiLowerCase ''facebook.com'')
   \<and> ''facebook.com'' \<in> set (blockedWebsites (settings allowedAndBlocked))
   \<and> enabled (settings allowedAndBlocked) \<and> \<not> goalsAchieved allowedAndBlocked
   \<and> \<not> shouldBlockWebsite exampleHostname asciiLowerCase allowedAndBlocked
         ''https://facebook.com''"
proof -
  have u: "exampleHostname ''https://facebook.com'' = Some ''facebook.com''" by code_simp
  have a: "''facebook.com'' \<in> set (allowedDomains (settings allowedAndBlocked))" by code_simp
  have s: "sublist ''facebook.com'' (asciiLowerCase ''facebook.com'')" by code_simp
  have b: "''facebook.com'' \<in> set (blockedWebsites (settings allowedAndBlocked))" by code_simp
  have e: "enabled (settings allowedAndBlocked)" by code_simp
  have g: "\<not> goalsAchieved allowedAndBlocked" by code_simp
  from allowed_domain_never_blocked
         [where urlHostname = exampleHostname and url = "''https://facebook.com''"
            and toLowerCase = asciiLowerCase, OF u a s]
       u a s b e g
  show ?thesis by simp
qed

text \<open>
  Claim C4. For a string that the URL constructor rejects, \<open>shouldBlockWebsite\<close>
  returns false in every state of the engine; the exception ends in the \<open>catch\<close>
  branch, so the function has a result on every input.
\<close>

theorem unparseable_url_not_blocked:
  assumes "urlHostname url = None"
  shows "\<not> shouldBlockWebsite urlHostname toLowerCase st url"
  using assms by (simp add: shouldBlockWebsite_matching)

theorem unparseable_url_not_blocked_witness:
  "exampleHostname ''not a url'' = None
   \<and> enabled (settings enabledEngine) \<and> \<not> goalsAchieved enabledEngine
   \<and> \<not> shouldBlockWebsite exampleHostname asciiLowerCase enabledEngine ''not a url''"
proof -
  have u: "exampleHostname ''not a url'' = None" by code_simp
  have e: "enabled (settings enabledEngine)" by code_simp
  have g: "\<not> goalsAchieved enabledEngine" by code_simp
  from unparseable_url_not_blocked
         [where urlHostname = exampleHostname and url = "''not a url''"
            and st = enabledEngine and toLowerCase = asciiLowerCase, OF u]
       u e g
  show ?thesis by simp
qed

subsection \<open>Updating and reading the settings\<close>

text \<open>
  Claim C6, as the code has it. \<open>updateSettings(p)\<close> rejects nothing. After it,
  \<open>getSettings()\<close> gives, for every field, the value of \<open>p\<close> when \<open>p\<close> has the field
  and the earlier value when it has not, with three exceptions: \<open>strictMode\<close>, when
  given, is stored as false; \<open>strictModeActivatedAt\<close> is cleared whenever \<open>p\<close> gives
  \<open>strictMode\<close>, whatever \<open>p\<close> gives for the timestamp; and a given \<open>locationGoal\<close> is
  stored with \<open>radiusMeters\<close> 150.
\<close>

theorem updateSettings_then_getSettings:
  "getSettings (updateSettings p st) =
     \<lparr>enabled = (case p_enabled p of None \<Rightarrow> enabled (settings st) | Some v \<Rightarrow> v),
      strictMode = (case p_strictMode p of None \<Rightarrow> strictMode (settings st) | Some v \<Rightarrow> False),
      strictModeActivatedAt =
        (case p_strictMode p of
           Some v \<Rightarrow> None
         | None \<Rightarrow>
             (case p_strictModeActivatedAt p of
                None \<Rightarrow> strictModeActivatedAt (settings st)
              | Some t \<Rightarrow> t)),
      trackingMode = (case p_trackingMode p of None \<Rightarrow> trackingMode (settings st) | Some v \<Rightarrow> v),
      dailyGoal = (case p_dailyGoal p of None \<Rightarrow> dailyGoal (settings st) | Some v \<Rightarrow> v),
      locationGoal =
        (case p_locationGoal p of
           None \<Rightarrow> locationGoal (settings st)
         | Some g \<Rightarrow> g\<lparr>radiusMeters := 150\<rparr>),
      blockedApps = (case p_blockedApps p of None \<Rightarrow> blockedApps (settings st) | Some v \<Rightarrow> v),
      blockedWebsites =
        (case p_blockedWebsites p of None \<Rightarrow> blockedWebsites (settings st) | Some v \<Rightarrow> v),
      allowedDomains =
        (case p_allowedDomains p of None \<Rightarrow> allowedDomains (settings st) | Some v \<Rightarrow> v),
      blockingMessage =
        (case p_blockingMessage p of None \<Rightarrow> blockingMessage (settings st) | Some v \<Rightarrow> v)\<rparr>"
proof (cases "p_strictMode p")
  case None
  then show ?thesis
    by (cases "p_locationGoal p") (simp_all add: getSettings_def updateSettings_def spread_def)
next
  case (Some v)
  then show ?thesis
    by (cases v; cases "p_locationGoal p")
       (simp_all add: getSettings_def updateSettings_def spread_def)
qed

text \<open>
  Claim C6 as stated fails: the stored timestamp is 7, the update gives \<open>strictMode\<close>
  false with the timestamp 5, and afterwards the timestamp is neither the 5 that was given
  nor the 7 from before the call. Also, \<open>strictMode: true\<close> is stored as false, and a
  \<open>locationGoal\<close> with a radius of 200 is stored with a radius of 150.
\<close>

theorem timestamp_neither_given_nor_kept:
  "p_strictModeActivatedAt strictModeOffAt5 = Some (Some 5)
   \<and> strictModeActivatedAt (getSettings timestampStored) = Some 7
   \<and> strictModeActivatedAt (getSettings (updateSettings strictModeOffAt5 timestampStored)) = None
   \<and> p_strictMode strictModeOn = Some True
   \<and> strictMode (getSettings (updateSettings strictModeOn enabledEngine)) = False
   \<and> map_option radiusMeters (p_locationGoal gymRadius200) = Some 200
   \<and> radiusMeters (locationGoal (getSettings (updateSettings gymRadius200 enabledEngine))) = 150"
  by code_simp

subsection \<open>The geofence radius\<close>

lemma radius_updateSettings:
  "radiusMeters (locationGoal (settings (updateSettings newSettings st))) =
     (case p_locationGoal newSettings of
        None \<Rightarrow> radiusMeters (locationGoal (settings st))
      | Some g \<Rightarrow> 150)"
  by (simp add: updateSettings_def spread_def Let_def split: option.splits)

lemma radius_loadSettings:
  "radiusMeters (locationGoal (loadSettings saved)) =
     (case saved of
        Parsed parsed \<Rightarrow>
          (case s_locationGoal parsed of
             None \<Rightarrow> 150
           | Some g \<Rightarrow> orNumber (s_radiusMeters g) 150)
      | _ \<Rightarrow> 150)"
  by (simp add: loadSettings_def defaultSettings_def defaultLocationGoal_def
      split: SavedItem.splits option.splits)

text \<open>
  Claim C7, at storage that holds a radius of 200: the engine built from it has the radius
  200, and it still has it after an \<open>updateSettings\<close> call that carries no
  \<open>locationGoal\<close>.
\<close>

theorem saved_radius_kept:
  "radiusMeters (locationGoal (settings (newBlockingService savedRadius200 None None))) = 200
   \<and> radiusMeters (locationGoal (settings strictModeRequested)) = 200"
  by code_simp

subsection \<open>Strict mode\<close>

lemma strictMode_loadSettings: "strictMode (loadSettings saved) = False"
  by (cases saved) (simp_all add: loadSettings_def defaultSettings_def)

lemma strictModeActivatedAt_loadSettings: "strictModeActivatedAt (loadSettings saved) = None"
  by (cases saved) (simp_all add: loadSettings_def defaultSettings_def)

lemma strictMode_updateSettings:
  "strictMode (settings (updateSettings newSettings st)) =
     (case p_strictMode newSettings of None \<Rightarrow> strictMode (settings st) | Some v \<Rightarrow> False)"
  by (simp add: updateSettings_def spread_def Let_def split: option.splits)

lemma reachable_strictMode: "reachable st \<Longrightarrow> \<not> strictMode (settings st)"
  by (induction rule: reachable.induct)
     (simp_all add: strictMode_loadSettings strictMode_updateSettings split: option.splits)

text \<open>
  Claim C9. In every reachable state of the engine \<open>strictMode\<close> is false and
  \<open>getBlockingStatus\<close> returns no \<open>strictModeTimeRemaining\<close>, at any clock time.
  Loading gives \<open>strictMode\<close> false and no activation timestamp whatever storage holds,
  and \<open>updateSettings\<close> with \<open>strictMode: true\<close> stores false, from any state.
\<close>

theorem strict_mode_never_active:
  assumes "reachable st"
  shows "\<not> strictMode (settings st)
     \<and> strictModeTimeRemaining (getBlockingStatus clock st) = None
     \<and> \<not> strictMode (loadSettings saved)
     \<and> strictModeActivatedAt (loadSettings saved) = None
     \<and> (p_strictMode newSettings = Some True \<longrightarrow>
          \<not> strictMode (settings (updateSettings newSettings st')))"
  using reachable_strictMode [OF assms]
  by (simp add: getBlockingStatus_def strictMode_loadSettings strictModeActivatedAt_loadSettings
      strictMode_updateSettings split: option.splits)

theorem strict_mode_never_active_witness:
  "p_strictMode strictModeOn = Some True
   \<and> \<not> strictMode (settings strictModeRequested)
   \<and> strictModeTimeRemaining (getBlockingStatus 100 strictModeRequested) = None
   \<and> \<not> strictMode (loadSettings savedRadius200)
   \<and> strictModeActivatedAt (loadSettings savedRadius200) = None
   \<and> \<not> strictMode (settings (updateSettings strictModeOn enabledEngine))"
proof -
  have r: "reachable strictModeRequested"
    unfolding strictModeRequested_def by (intro reachable.intros)
  have p: "p_strictMode strictModeOn = Some True"
    by (simp add: strictModeOn_def)
  from strict_mode_never_active
         [OF r, where clock = 100 and saved = savedRadius200
            and newSettings = strictModeOn and st' = enabledEngine]
       p
  show ?thesis by simp
qed

section \<open>Properties of \<open>getSettings\<close> and sharing\<close>

lemma resolve_settingsObjs [simp]:
  "resolve (\<sigma>\<lparr>settingsObjs := objs\<rparr>) obj = resolve \<sigma> obj"
  "resolve (\<sigma>\<lparr>nextAddr := n\<rparr>) obj = resolve \<sigma> obj"
  by (simp_all add: resolve_def)

text \<open>The object that \<open>getSettingsRef\<close> returns denotes what \<open>getSettings\<close> returns.\<close>

lemma readSettings_getSettingsRef:
  "readSettings (snd (getSettingsRef this_settings \<sigma>)) (fst (getSettingsRef this_settings \<sigma>)) =
     readSettings \<sigma> this_settings"
  by (cases "settingsObjs \<sigma> this_settings")
     (simp_all add: getSettingsRef_def readSettings_def Let_def)

text \<open>
  Claim C8, as the code has it. \<open>getSettings\<close> returns a new object with the settings
  of the engine, and whatever a caller assigns to a property of that object, the engine's
  settings stay as they were. (The \<open>locationGoal\<close> object and the three arrays are the
  engine's own: the copy is one level deep.)
\<close>

theorem top_level_assignment_not_shared:
  assumes "this_settings < nextAddr \<sigma>"
  shows "readSettings (snd (getSettingsRef this_settings \<sigma>)) (fst (getSettingsRef this_settings \<sigma>))
           = readSettings \<sigma> this_settings
     \<and> readSettings
          (callerAssigns x (fst (getSettingsRef this_settings \<sigma>))
             (snd (getSettingsRef this_settings \<sigma>)))
          this_settings
        = readSettings \<sigma> this_settings"
  using assms
  by (cases "settingsObjs \<sigma> this_settings")
     (simp_all add: getSettingsRef_def readSettings_def callerAssigns_def Let_def)

theorem top_level_assignment_not_shared_witness:
  "(0::nat) < nextAddr exampleStore
   \<and> readSettings exampleStore 0 = Some defaultSettings
   \<and> readSettings
        (callerAssigns (AssignDailyGoal 1) (fst (getSettingsRef 0 exampleStore))
           (snd (getSettingsRef 0 exampleStore)))
        0
      = Some defaultSettings"
proof -
  have a: "(0::nat) < nextAddr exampleStore" by code_simp
  have r: "readSettings exampleStore 0 = Some defaultSettings" by code_simp
  from top_level_assignment_not_shared [OF a, of "AssignDailyGoal 1"] a r
  show ?thesis by simp
qed

text \<open>
  Claim C8 as stated fails: a caller who writes \<open>radiusMeters = 300\<close> into the
  \<open>locationGoal\<close> of the returned object, or pushes a domain onto its
  \<open>allowedDomains\<close>, changes the settings of the engine.
\<close>

theorem nested_write_reaches_engine:
  "readSettings exampleStore 0 = Some defaultSettings
   \<and> readSettings
        (callerWrites (WriteRadiusMeters 300) (fst (getSettingsRef 0 exampleStore))
           (snd (getSettingsRef 0 exampleStore)))
        0
      = Some (defaultSettings\<lparr>locationGoal := defaultLocationGoal\<lparr>radiusMeters := 300\<rparr>\<rparr>)
   \<and> readSettings
        (callerWrites (PushAllowedDomains ''facebook.com'') (fst (getSettingsRef 0 exampleStore))
           (snd (getSettingsRef 0 exampleStore)))
        0
      = Some (defaultSettings\<lparr>allowedDomains := [''localhost'', ''127.0.0.1'', ''facebook.com'']\<rparr>)"
  by code_simp

section \<open>Properties of the location tracker\<close>

text \<open>
  Claim C10. The radius that the gym check compares the distance with is the larger of
  the configured radius and 1.5 times the reported accuracy, so it is never below the
  configured radius (for every accuracy, non-negative or not).
\<close>

theorem effective_radius_max:
  "effectiveRadius gymLocation locationData =
     max (gym_radiusMeters gymLocation) (accuracy locationData * 1.5)
   \<and> gym_radiusMeters gymLocation \<le> effectiveRadius gymLocation locationData
   \<and> (nowAtGym calculateDistance gymLocation locationData \<longleftrightarrow>
        calculateDistance (loc_latitude locationData) (loc_longitude locationData)
          (gym_latitude gymLocation) (gym_longitude gymLocation)
        \<le> max (gym_radiusMeters gymLocation) (accuracy locationData * 1.5))"
  by (simp add: effectiveRadius_def nowAtGym_def)

subsection \<open>The committed total\<close>

text \<open>A fix inside the radius never changes the total, whatever the callback captured.\<close>

lemma arrival_and_stay_commit_nothing:
  assumes "nowAtGym distance g (position d)"
  shows "totalGymTimeToday (successCallback captured (Some g) distance d st) = totalGymTimeToday st"
  using assms by (simp add: successCallback_def gymCheck_def Let_def split: option.splits)

text \<open>
  A callback whose captured state is the current one (inside, with a recorded start) adds
  the whole minutes between the recorded start and the clock at the departing fix. Both
  times are readings of \<open>new Date()\<close>; the \<open>timestamp\<close> of the fix is not used.
\<close>

lemma departure_over_current_state:
  assumes "isAtGym st" and "gymSessionStart st = Some start"
    and "\<not> nowAtGym distance g (position d)"
  shows "totalGymTimeToday (successCallback st (Some g) distance d st)
           = totalGymTimeToday st + (now d - start) div 60000"
  using assms by (simp add: successCallback_def gymCheck_def Let_def)

text \<open>
  A callback that captured \<open>isAtGym = false\<close> never takes the departure branch, so a
  watch started outside the gym commits nothing, whatever positions it is given.
\<close>

lemma total_gymCheck_outside:
  "\<not> isAtGym captured \<Longrightarrow>
     totalGymTimeToday (gymCheck captured g distance d st) = totalGymTimeToday st"
  by (simp add: gymCheck_def Let_def)

lemma total_successCallback_outside:
  "\<not> isAtGym captured \<Longrightarrow>
     totalGymTimeToday (successCallback captured gymLocation distance d st) = totalGymTimeToday st"
  by (simp add: successCallback_def Let_def total_gymCheck_outside split: option.splits)

lemma total_watchPosition_outside:
  "\<not> isAtGym captured \<Longrightarrow>
     totalGymTimeToday (watchPosition (successCallback captured gymLocation distance) ds st)
       = totalGymTimeToday st"
  by (induction ds arbitrary: st) (simp_all add: total_successCallback_outside)

lemma watch_started_outside_commits_nothing:
  "\<not> isAtGym st \<Longrightarrow>
     totalGymTimeToday (startTracking gymLocation distance ds st) = totalGymTimeToday st"
  by (simp add: startTracking_def total_watchPosition_outside)

text \<open>
  Claim C5, at a visit of 42 minutes: the component mounts with tracking on, a fix at the
  gym arrives and the start of the session is recorded, and 42 minutes later a fix outside
  the radius arrives. The total is not changed by the departing fix, the tracker still
  counts as at the gym, and \<open>onGymStatusChange\<close> has not been called.
\<close>

theorem visit_commits_nothing:
  "nowAtGym exampleDistance exampleGym (position arrival)
   \<and> \<not> nowAtGym exampleDistance exampleGym (position departure)
   \<and> isAtGym (startTracking (Some exampleGym) exampleDistance [arrival] mounted)
   \<and> gymSessionStart (startTracking (Some exampleGym) exampleDistance [arrival] mounted)
       = Some (now arrival)
   \<and> (now departure - now arrival) div 60000 = 42
   \<and> totalGymTimeToday visit = totalGymTimeToday mounted
   \<and> isAtGym visit
   \<and> gymStatusChanges visit = []"
  by code_simp

end
